theory Spec2Isabelle
  imports Main "HOL-Library.Sublist" "HOL-Library.Code_Target_Nat"
begin

section \<open>Python values, exceptions and dictionaries\<close>

text \<open>
  The executor of \<^verbatim>\<open>src/droidrun/agent/utils/executer.py\<close> stores Python objects in
  dictionaries keyed by identifier. The values that matter to it are tools (function
  objects, which carry \<^verbatim>\<open>__name__\<close>), other callables (a \<^verbatim>\<open>functools.partial\<close> or
  an instance with \<^verbatim>\<open>__call__\<close> is callable and has no \<^verbatim>\<open>__name__\<close>), the
  builtins mapping and the import guard of safe mode, and plain data.
\<close>

type_synonym ref = nat

datatype pyval =
    PyNone
  | PyInt int
  | PyStr string
  | PyFunction string nat
  | PyCallable string nat
  | PyDict "string \<Rightarrow> pyval option"
  | PyImportGuard "string set option" "string set option"

type_synonym pydict = "string \<Rightarrow> pyval option"

text \<open>
  \<open>PyFunction name ident\<close> is a function object with \<^verbatim>\<open>__name__ == name\<close>;
  \<open>PyCallable tname ident\<close> is a callable object of type \<open>tname\<close> that is not a
  function and has no \<^verbatim>\<open>__name__\<close>. The import guard is a function that the absent
  module names; any name gives the same results below.
\<close>

fun py_name :: "pyval \<Rightarrow> string option" where
  "py_name (PyFunction n i) = Some n"
| "py_name (PyImportGuard a b) = Some ''safe_import''"
| "py_name v = None"

fun py_type_name :: "pyval \<Rightarrow> string" where
  "py_type_name PyNone = ''NoneType''"
| "py_type_name (PyInt i) = ''int''"
| "py_type_name (PyStr s) = ''str''"
| "py_type_name (PyFunction n i) = ''function''"
| "py_type_name (PyCallable t i) = t"
| "py_type_name (PyDict d) = ''dict''"
| "py_type_name (PyImportGuard a b) = ''function''"

text \<open>
  Where the class of an exception stands: \<^verbatim>\<open>SystemExit\<close>, \<^verbatim>\<open>KeyboardInterrupt\<close> and
  \<^verbatim>\<open>GeneratorExit\<close> derive from \<^verbatim>\<open>BaseException\<close> only; every other class derives
  from \<^verbatim>\<open>Exception\<close>, and \<^verbatim>\<open>asyncio.TimeoutError\<close> and its subclasses are the
  ones that \<^verbatim>\<open>except asyncio.TimeoutError\<close> catches.
\<close>

datatype pyclass = BaseExceptionOnly | ExceptionSubclass | TimeoutErrorSubclass

text \<open>
  An exception in flight: \<^verbatim>\<open>type(e).__name__\<close>, what \<^verbatim>\<open>str(e)\<close> does, and where its
  class stands. \<^verbatim>\<open>str(e)\<close> calls the \<^verbatim>\<open>__str__\<close> of the class, which the executed
  code may have written: it returns a string (\<open>Inr\<close>) or raises an exception
  (\<open>Inl\<close>).
\<close>

datatype pyexc =
  PyExc (exc_type: string) (exc_str: "pyexc + string") (exc_class: pyclass)

definition exc_is_Exception :: "pyexc \<Rightarrow> bool" where
  "exc_is_Exception e = (exc_class e \<noteq> BaseExceptionOnly)"

definition exc_is_TimeoutError :: "pyexc \<Rightarrow> bool" where
  "exc_is_TimeoutError e = (exc_class e = TimeoutErrorSubclass)"

definition quoted :: "string \<Rightarrow> string" where
  "quoted s = [CHR 0x27] @ s @ [CHR 0x27]"

definition ValueError_tools :: pyexc where
  "ValueError_tools =
     PyExc ''ValueError'' (Inr ''Tools must be a dictionary or a list of functions.'')
       ExceptionSubclass"

definition AttributeError_name :: "pyval \<Rightarrow> pyexc" where
  "AttributeError_name v =
     PyExc ''AttributeError''
       (Inr (quoted (py_type_name v) @ '' object has no attribute '' @ quoted ''__name__''))
       ExceptionSubclass"

definition NameError :: "string \<Rightarrow> pyexc" where
  "NameError x =
     PyExc ''NameError'' (Inr (''name '' @ quoted x @ '' is not defined'')) ExceptionSubclass"

definition TypeError_write :: "pyval \<Rightarrow> pyexc" where
  "TypeError_write v =
     PyExc ''TypeError'' (Inr (''string argument expected, got '' @ quoted (py_type_name v)))
       ExceptionSubclass"

section \<open>The world: dictionary objects, the context slot, the clock\<close>

text \<open>
  Dictionaries are objects: the caller's \<^verbatim>\<open>globals\<close> is mutated in place and
  \<^verbatim>\<open>self.globals\<close> and \<^verbatim>\<open>self.locals\<close> may be one object. So dictionaries live in a
  store, addressed by reference; \<open>next_ref\<close> is the first unused address.
  \<open>exec_context\<close> is the module-level slot \<^verbatim>\<open>async_utils._exec_context\<close>,
  \<open>current_context\<close> what \<^verbatim>\<open>contextvars.copy_context()\<close> returns to the caller, and
  \<open>clock\<close> the time in seconds.
\<close>

type_synonym pyctx = nat

record world =
  cells :: "ref \<Rightarrow> pydict"
  next_ref :: ref
  exec_context :: "pyctx option"
  current_context :: pyctx
  clock :: nat

definition alloc :: "pydict \<Rightarrow> world \<Rightarrow> ref \<times> world" where
  "alloc d w =
     (next_ref w, w\<lparr>cells := (cells w)(next_ref w := d), next_ref := Suc (next_ref w)\<rparr>)"

definition dict_set :: "ref \<Rightarrow> string \<Rightarrow> pyval \<Rightarrow> world \<Rightarrow> world" where
  "dict_set r k v w = w\<lparr>cells := (cells w)(r := (cells w r)(k \<mapsto> v))\<rparr>"

definition dict_update :: "ref \<Rightarrow> pydict \<Rightarrow> world \<Rightarrow> world" where
  "dict_update r t w = w\<lparr>cells := (cells w)(r := cells w r ++ t)\<rparr>"

section \<open>Capability policy\<close>

text \<open>
  Modelled from the spec: the decision function of
  \<^verbatim>\<open>droidrun.config_manager.safe_execution\<close>, which is imported by the executor and is
  not among the sources. Section 4.1: \<^verbatim>\<open>allowed is None\<close> permits all, otherwise
  only the names in \<^verbatim>\<open>allowed\<close> are permitted; regardless, a name in \<^verbatim>\<open>blocked\<close>
  is denied.
\<close>

definition resolve :: "string set option \<Rightarrow> string set option \<Rightarrow> string \<Rightarrow> bool" where
  "resolve allowed blocked name =
     (if (case blocked of None \<Rightarrow> False | Some b \<Rightarrow> name \<in> b) then False
      else (case allowed of None \<Rightarrow> True | Some a \<Rightarrow> name \<in> a))"

text \<open>
  Modelled from the spec: \<^verbatim>\<open>create_safe_builtins\<close> (not among the sources) filters the
  full builtins mapping through the decision function.
\<close>

definition create_safe_builtins ::
  "string set option \<Rightarrow> string set option \<Rightarrow> pydict \<Rightarrow> pydict" where
  "create_safe_builtins allowed blocked full =
     (\<lambda>name. if resolve allowed blocked name then full name else None)"

text \<open>
  Modelled from the spec: \<^verbatim>\<open>create_safe_import\<close> (not among the sources) returns the
  import guard, a function object that holds the module policy; a call of the guard
  for a module is permitted exactly when the decision function permits its name.
\<close>

definition create_safe_import :: "string set option \<Rightarrow> string set option \<Rightarrow> pyval" where
  "create_safe_import allowed blocked = PyImportGuard allowed blocked"

fun guard_permits :: "pyval \<Rightarrow> string \<Rightarrow> bool" where
  "guard_permits (PyImportGuard allowed blocked) m = resolve allowed blocked m"
| "guard_permits v m = True"

section \<open>Construction\<close>

datatype tools = ToolsNone | ToolsDict pydict | ToolsList "pyval list" | ToolsOther pyval

record executor =
  safe_mode :: bool
  globals :: ref
  locals :: ref
  use_same_scope :: bool

text \<open>
  The loop \<^verbatim>\<open>for tool in tools: globals[tool.__name__] = tool\<close>. Reading
  \<^verbatim>\<open>__name__\<close> of an object that has none raises \<^verbatim>\<open>AttributeError\<close>; the entries
  stored before it stay.
\<close>

fun add_tools :: "ref \<Rightarrow> pyval list \<Rightarrow> world \<Rightarrow> pyexc option \<times> world" where
  "add_tools g [] w = (None, w)"
| "add_tools g (tool # ts) w =
     (case py_name tool of
        None \<Rightarrow> (Some (AttributeError_name tool), w)
      | Some n \<Rightarrow> add_tools g ts (dict_set g n tool w))"

text \<open>
  \<^verbatim>\<open>SimpleCodeExecutor.__init__\<close>, block by block. \<open>default_dict\<close> is
  \<^verbatim>\<open>if x is None: x = {}\<close>: a fresh dictionary when the caller gave none.
\<close>

definition default_dict :: "ref option \<Rightarrow> world \<Rightarrow> ref \<times> world" where
  "default_dict arg w = (case arg of None \<Rightarrow> alloc Map.empty w | Some r \<Rightarrow> (r, w))"

text \<open>
  The block \<^verbatim>\<open>if safe_mode: ... else: ...\<close>, which stores the builtins mapping
  under \<^verbatim>\<open>__builtins__\<close> in the globals. \<open>builtins\<close> is the mapping the
  module-level name \<^verbatim>\<open>__builtins__\<close> denotes.
\<close>

definition setup_builtins ::
  "bool \<Rightarrow> string set option \<Rightarrow> string set option \<Rightarrow> string set option \<Rightarrow> string set option \<Rightarrow>
   pydict \<Rightarrow> ref \<Rightarrow> world \<Rightarrow> world" where
  "setup_builtins safe allowed_modules blocked_modules allowed_builtins blocked_builtins builtins g w =
     (if safe then
        let safe_builtins_dict = create_safe_builtins allowed_builtins blocked_builtins builtins;
            safe_builtins_dict' = safe_builtins_dict
              (''__import__'' \<mapsto> create_safe_import allowed_modules blocked_modules)
        in dict_set g ''__builtins__'' (PyDict safe_builtins_dict') w
      else dict_set g ''__builtins__'' (PyDict builtins) w)"

text \<open>
  The block \<^verbatim>\<open>if isinstance(tools, dict): ... elif isinstance(tools, list): ... else:
  raise ValueError(...)\<close>; \<^verbatim>\<open>tools=None\<close> has become \<^verbatim>\<open>{}\<close> before.
\<close>

fun install_tools :: "ref \<Rightarrow> tools \<Rightarrow> world \<Rightarrow> pyexc option \<times> world" where
  "install_tools g ToolsNone w = (None, dict_update g Map.empty w)"
| "install_tools g (ToolsDict t) w = (None, dict_update g t w)"
| "install_tools g (ToolsList ts) w = add_tools g ts w"
| "install_tools g (ToolsOther v) w = (Some ValueError_tools, w)"

text \<open>
  The last block: \<^verbatim>\<open>self.globals = globals; self.locals = locals\<close> and, with
  \<^verbatim>\<open>use_same_scope\<close>, the merged dictionary
  \<^verbatim>\<open>{**self.locals, **{k: v for k, v in self.globals.items() if k not in self.locals}}\<close>,
  a new object that becomes both \<^verbatim>\<open>self.globals\<close> and \<^verbatim>\<open>self.locals\<close>.
\<close>

definition bind_scopes :: "bool \<Rightarrow> bool \<Rightarrow> ref \<Rightarrow> ref \<Rightarrow> world \<Rightarrow> executor \<times> world" where
  "bind_scopes same_scope safe g l w =
     (if same_scope then
        let rest = (\<lambda>k. case cells w l k of None \<Rightarrow> cells w g k | Some v \<Rightarrow> None);
            merged = cells w l ++ rest;
            (m, w') = alloc merged w
        in (\<lparr>safe_mode = safe, globals = m, locals = m, use_same_scope = same_scope\<rparr>, w')
      else (\<lparr>safe_mode = safe, globals = g, locals = l, use_same_scope = same_scope\<rparr>, w))"

text \<open>
  The constructor: the exception that leaves it or the executor, together with the
  world as the constructor left it.
\<close>

definition init ::
  "ref option \<Rightarrow> ref option \<Rightarrow> tools \<Rightarrow> bool \<Rightarrow> bool \<Rightarrow>
   string set option \<Rightarrow> string set option \<Rightarrow> string set option \<Rightarrow> string set option \<Rightarrow>
   pydict \<Rightarrow> world \<Rightarrow> (pyexc + executor) \<times> world" where
  "init locals_arg globals_arg tools_arg same_scope safe
        allowed_modules blocked_modules allowed_builtins blocked_builtins builtins w0 =
     (let (l, w1) = default_dict locals_arg w0;
          (g, w2) = default_dict globals_arg w1;
          w3 = setup_builtins safe allowed_modules blocked_modules allowed_builtins blocked_builtins
                 builtins g w2;
          (err, w4) = install_tools g tools_arg w3
      in case err of
           Some e \<Rightarrow> (Inl e, w4)
         | None \<Rightarrow> (let (self, w5) = bind_scopes same_scope safe g l w4 in (Inr self, w5)))"

section \<open>Executed code\<close>

text \<open>
  \<^verbatim>\<open>exec(code, self.globals, self.locals)\<close> is Python's own; the code it runs is
  modelled by a small statement language, rich enough for what the executor observes:
  \<^item> \<open>Assign x e\<close> is the top-level assignment \<^verbatim>\<open>x = e\<close>;
  \<^item> \<open>WriteOut e\<close> and \<open>WriteErr e\<close> are \<^verbatim>\<open>sys.stdout.write(e)\<close> and
    \<^verbatim>\<open>sys.stderr.write(e)\<close>;
  \<^item> \<open>Raise e\<close> raises the exception \<open>e\<close> (code that does not parse behaves as
    raising \<^verbatim>\<open>SyntaxError\<close>);
  \<^item> \<open>Sleep n\<close> is \<^verbatim>\<open>time.sleep(n)\<close>; every other statement takes no time;
  \<^item> \<open>Hang\<close> never returns (\<^verbatim>\<open>while True: pass\<close>).
  At top level a name is stored in the locals mapping and looked up in the locals,
  then the globals, then the builtins found under \<^verbatim>\<open>__builtins__\<close> in the globals.
\<close>

datatype expr = Const pyval | Name string

datatype stmt =
    Assign string expr
  | WriteOut expr
  | WriteErr expr
  | Raise pyexc
  | Sleep nat
  | Hang

datatype outcome = Completed | Raised pyexc | NoReturn

record run_state =
  rs_world :: world
  rs_stdout :: string
  rs_stderr :: string

definition load_name :: "world \<Rightarrow> ref \<Rightarrow> ref \<Rightarrow> string \<Rightarrow> pyval option" where
  "load_name w g l x =
     (case cells w l x of
        Some v \<Rightarrow> Some v
      | None \<Rightarrow>
          (case cells w g x of
             Some v \<Rightarrow> Some v
           | None \<Rightarrow>
               (case cells w g ''__builtins__'' of
                  Some (PyDict b) \<Rightarrow> b x
                | _ \<Rightarrow> None)))"

fun eval_expr :: "world \<Rightarrow> ref \<Rightarrow> ref \<Rightarrow> expr \<Rightarrow> pyexc + pyval" where
  "eval_expr w g l (Const v) = Inr v"
| "eval_expr w g l (Name x) =
     (case load_name w g l x of None \<Rightarrow> Inl (NameError x) | Some v \<Rightarrow> Inr v)"

fun exec_stmt :: "ref \<Rightarrow> ref \<Rightarrow> stmt \<Rightarrow> run_state \<Rightarrow> outcome \<times> run_state" where
  "exec_stmt g l (Assign x e) rs =
     (case eval_expr (rs_world rs) g l e of
        Inl ex \<Rightarrow> (Raised ex, rs)
      | Inr v \<Rightarrow> (Completed, rs\<lparr>rs_world := dict_set l x v (rs_world rs)\<rparr>))"
| "exec_stmt g l (WriteOut e) rs =
     (case eval_expr (rs_world rs) g l e of
        Inl ex \<Rightarrow> (Raised ex, rs)
      | Inr (PyStr s) \<Rightarrow> (Completed, rs\<lparr>rs_stdout := rs_stdout rs @ s\<rparr>)
      | Inr v \<Rightarrow> (Raised (TypeError_write v), rs))"
| "exec_stmt g l (WriteErr e) rs =
     (case eval_expr (rs_world rs) g l e of
        Inl ex \<Rightarrow> (Raised ex, rs)
      | Inr (PyStr s) \<Rightarrow> (Completed, rs\<lparr>rs_stderr := rs_stderr rs @ s\<rparr>)
      | Inr v \<Rightarrow> (Raised (TypeError_write v), rs))"
| "exec_stmt g l (Raise ex) rs = (Raised ex, rs)"
| "exec_stmt g l (Sleep n) rs =
     (Completed, rs\<lparr>rs_world := (rs_world rs)\<lparr>clock := clock (rs_world rs) + n\<rparr>\<rparr>)"
| "exec_stmt g l Hang rs = (NoReturn, rs)"

fun exec_code :: "ref \<Rightarrow> ref \<Rightarrow> stmt list \<Rightarrow> run_state \<Rightarrow> outcome \<times> run_state" where
  "exec_code g l [] rs = (Completed, rs)"
| "exec_code g l (s # ss) rs =
     (case exec_stmt g l s rs of
        (Completed, rs') \<Rightarrow> exec_code g l ss rs'
      | (oc, rs') \<Rightarrow> (oc, rs'))"

section \<open>The code runner and the bounded executor\<close>

text \<open>
  \<^verbatim>\<open>traceback.format_exc()\<close> is Python's own: a header, the stack entries and the
  exception's final line, which has no colon when \<^verbatim>\<open>str(e)\<close> is empty. It does
  not fail when \<^verbatim>\<open>str(e)\<close> raises: it prints a placeholder then. The stack entries
  (file names and line numbers) are abbreviated to the entry of the executed string;
  nothing below depends on them.
\<close>

definition safe_str :: "pyexc \<Rightarrow> string" where
  "safe_str e = (case exc_str e of Inr s \<Rightarrow> s | Inl e' \<Rightarrow> ''<exception str() failed>'')"

definition format_exc :: "pyexc \<Rightarrow> string" where
  "format_exc e =
     ''Traceback (most recent call last):\<newline>'' @
     ''  File <string>, in <module>\<newline>'' @
     (if safe_str e = [] then exc_type e else exc_type e @ '': '' @ safe_str e) @
     ''\<newline>''"

datatype thread_result = Returned string | Propagated pyexc | Never

text \<open>
  The first lines of \<^verbatim>\<open>_execute_in_thread\<close>, up to the call of \<^verbatim>\<open>exec\<close> under the
  two redirections: the state is stored under \<^verbatim>\<open>ui_state\<close> in \<^verbatim>\<open>self.globals\<close>, the
  context (when given) is put in the slot, and the code runs on empty buffers.
\<close>

definition run_code ::
  "executor \<Rightarrow> stmt list \<Rightarrow> pyval \<Rightarrow> pyctx option \<Rightarrow> world \<Rightarrow> outcome \<times> run_state" where
  "run_code self code ui ctx w =
     (let w1 = dict_set (globals self) ''ui_state'' ui w;
          w2 = (case ctx of None \<Rightarrow> w1 | Some c \<Rightarrow> w1\<lparr>exec_context := Some c\<rparr>)
      in exec_code (globals self) (locals self) code
           \<lparr>rs_world = w2, rs_stdout = [], rs_stderr = []\<rparr>)"

text \<open>The \<^verbatim>\<open>finally\<close> block of \<^verbatim>\<open>_execute_in_thread\<close>.\<close>

definition clear_context :: "pyctx option \<Rightarrow> world \<Rightarrow> world" where
  "clear_context ctx w = (if ctx \<noteq> None then w\<lparr>exec_context := None\<rparr> else w)"

text \<open>
  \<^verbatim>\<open>_execute_in_thread\<close>: the value it returns, the exception that leaves it, or
  \<open>Never\<close> when the executed code does not return; then no line after \<^verbatim>\<open>exec\<close> runs.
  \<^verbatim>\<open>except Exception\<close> catches only what derives from \<^verbatim>\<open>Exception\<close>. The handler
  calls \<^verbatim>\<open>str(e)\<close> for the first line of the output; what \<^verbatim>\<open>str(e)\<close> raises leaves
  the handler, whatever its class. The \<^verbatim>\<open>finally\<close> block runs on each of these ways
  out.
\<close>

definition execute_in_thread ::
  "executor \<Rightarrow> stmt list \<Rightarrow> pyval \<Rightarrow> pyctx option \<Rightarrow> world \<Rightarrow> thread_result \<times> world" where
  "execute_in_thread self code ui ctx w =
     (case run_code self code ui ctx w of
        (NoReturn, rs) \<Rightarrow> (Never, rs_world rs)
      | (Completed, rs) \<Rightarrow>
          (let output = rs_stdout rs;
               output = (if rs_stderr rs \<noteq> [] then output @ ''\<newline>'' @ rs_stderr rs else output)
           in (Returned output, clear_context ctx (rs_world rs)))
      | (Raised e, rs) \<Rightarrow>
          if exc_is_Exception e then
            (case exc_str e of
               Inl e' \<Rightarrow> (Propagated e', clear_context ctx (rs_world rs))
             | Inr msg \<Rightarrow>
                 (let output = ''Error: '' @ exc_type e @ '': '' @ msg @ ''\<newline>'';
                      output = output @ format_exc e
                  in (Returned output, clear_context ctx (rs_world rs))))
          else (Propagated e, clear_context ctx (rs_world rs)))"

subsection \<open>The timeout\<close>

text \<open>
  The timeout is a Python number: an \<^verbatim>\<open>int\<close>, or a finite \<^verbatim>\<open>float\<close> as the
  signature declares it (\<^verbatim>\<open>timeout: float = 50.0\<close>). A finite float is represented
  by the shortest decimal that denotes it, which is the decimal \<^verbatim>\<open>repr\<close> prints:
  \<open>PyFloat negative m e\<close> is the float whose shortest decimal is \<open>m\<close> times ten to
  the power \<open>e\<close>, with a minus sign when \<open>negative\<close>. So \<^verbatim>\<open>50.0\<close> is
  \<open>PyFloat False 5 1\<close> and \<^verbatim>\<open>0.5\<close> is \<open>PyFloat False 5 (- 1)\<close>. An integer below
  \<open>2 ^ 53\<close> is a float that is its own shortest decimal, so the order between a float
  and a whole number of seconds is the order of the decimals. The floats
  \<^verbatim>\<open>inf\<close> and \<^verbatim>\<open>nan\<close> are no deadlines and are not represented.
\<close>

datatype pynum = PyIntNum int | PyFloat bool nat int

fun digits :: "nat \<Rightarrow> string" where
  "digits n =
     (if n < 10 then [''0123456789'' ! n]
      else digits (n div 10) @ [''0123456789'' ! (n mod 10)])"

definition str_int :: "int \<Rightarrow> string" where
  "str_int i = (if i < 0 then ''-'' @ digits (nat (- i)) else digits (nat i))"

text \<open>
  \<^verbatim>\<open>repr\<close> of a float, which is what an f-string without a format prints. Trailing
  zeros are no digits of the shortest decimal. With \<open>n\<close> digits and the decimal point
  after \<open>decpt\<close> of them, Python prints the exponent form when \<open>decpt \<le> - 4\<close> or
  \<open>decpt > 16\<close>, with a sign and at least two digits in the exponent; otherwise it
  prints the positional form, with \<^verbatim>\<open>.0\<close> after a whole number.
\<close>

fun strip_zeros :: "nat \<Rightarrow> int \<Rightarrow> nat \<times> int" where
  "strip_zeros m e =
     (if m \<noteq> 0 \<and> m mod 10 = 0 then strip_zeros (m div 10) (e + 1) else (m, e))"

definition float_repr :: "nat \<Rightarrow> int \<Rightarrow> string" where
  "float_repr m e =
     (if m = 0 then ''0.0''
      else
        let (m', e') = strip_zeros m e;
            ds = digits m';
            n = int (length ds);
            decpt = n + e'
        in if decpt \<le> - 4 \<or> decpt > 16 then
             [hd ds] @ (if 1 < n then ''.'' @ tl ds else []) @ ''e'' @
             (if decpt - 1 < 0 then ''-'' else ''+'') @
             (if \<bar>decpt - 1\<bar> < 10 then ''0'' else []) @ digits (nat \<bar>decpt - 1\<bar>)
           else if decpt \<le> 0 then ''0.'' @ replicate (nat (- decpt)) (CHR ''0'') @ ds
           else if n \<le> decpt then ds @ replicate (nat (decpt - n)) (CHR ''0'') @ ''.0''
           else take (nat decpt) ds @ ''.'' @ drop (nat decpt) ds)"

fun str_num :: "pynum \<Rightarrow> string" where
  "str_num (PyIntNum i) = str_int i"
| "str_num (PyFloat negative m e) = (if negative then ''-'' else []) @ float_repr m e"

text \<open>
  Whether a worker that took \<open>elapsed\<close> seconds is done before the deadline: the
  comparison \<open>elapsed < timeout\<close>, on whole numbers. A worker that is done exactly at
  the deadline counts as late, and a timeout that is not positive leaves no time.
\<close>

fun before_deadline :: "nat \<Rightarrow> pynum \<Rightarrow> bool" where
  "before_deadline elapsed (PyIntNum i) = (int elapsed < i)"
| "before_deadline elapsed (PyFloat negative m e) =
     (\<not> negative \<and>
      (if 0 \<le> e then int elapsed < int m * 10 ^ nat e
       else int elapsed * 10 ^ nat (- e) < int m))"

definition asyncio_TimeoutError :: pyexc where
  "asyncio_TimeoutError = PyExc ''TimeoutError'' (Inr []) TimeoutErrorSubclass"

text \<open>
  \<^verbatim>\<open>await asyncio.wait_for(future, timeout)\<close> on the worker's future: the string the
  worker returned (\<open>Inr\<close>) or the exception that left the worker (\<open>Inl\<close>) when the
  worker is done before the deadline, and \<^verbatim>\<open>asyncio.TimeoutError\<close> otherwise.
  \<open>elapsed\<close> is the time the worker took.
\<close>

definition wait_for :: "thread_result \<Rightarrow> nat \<Rightarrow> pynum \<Rightarrow> pyexc + string" where
  "wait_for r elapsed timeout =
     (case r of
        Returned output \<Rightarrow>
          if before_deadline elapsed timeout then Inr output else Inl asyncio_TimeoutError
      | Propagated e \<Rightarrow>
          if before_deadline elapsed timeout then Inl e else Inl asyncio_TimeoutError
      | Never \<Rightarrow> Inl asyncio_TimeoutError)"

record ExecuterState =
  ui_state :: pyval

text \<open>
  \<^verbatim>\<open>execute\<close>: \<open>Inr\<close> is the string it returns, \<open>Inl\<close> the exception it raises.
  \<^verbatim>\<open>except asyncio.TimeoutError\<close> catches the timeout of \<^verbatim>\<open>wait_for\<close> and any
  \<^verbatim>\<open>TimeoutError\<close> that left the worker; every other exception leaves \<^verbatim>\<open>execute\<close>.
  The world it returns is the one the worker leaves behind, also when the caller stopped
  waiting for it; a worker that is still running beside a later call is not modelled.
\<close>

definition execute ::
  "executor \<Rightarrow> ExecuterState \<Rightarrow> stmt list \<Rightarrow> pynum \<Rightarrow> world \<Rightarrow> (pyexc + string) \<times> world" where
  "execute self state code timeout w =
     (let ui = ui_state state;
          ctx = current_context w;
          (r, w') = execute_in_thread self code ui (Some ctx) w
      in case wait_for r (clock w' - clock w) timeout of
           Inr output \<Rightarrow> (Inr output, w')
         | Inl e \<Rightarrow>
             if exc_is_TimeoutError e then
               (Inr (''Error: Execution timed out after '' @ str_num timeout @ '' seconds''), w')
             else (Inl e, w'))"

section \<open>Notions the claims are stated with\<close>

text \<open>
  What the worker of one \<^verbatim>\<open>execute\<close> call runs, and the time it takes:
  \<^verbatim>\<open>execute\<close> passes \<^verbatim>\<open>state.ui_state\<close> and the copied context to the worker.
\<close>

abbreviation worker_run :: "executor \<Rightarrow> ExecuterState \<Rightarrow> stmt list \<Rightarrow> world \<Rightarrow> outcome \<times> run_state" where
  "worker_run self state code w \<equiv>
     run_code self code (ui_state state) (Some (current_context w)) w"

abbreviation worker_time :: "executor \<Rightarrow> ExecuterState \<Rightarrow> stmt list \<Rightarrow> world \<Rightarrow> nat" where
  "worker_time self state code w \<equiv>
     clock (rs_world (snd (worker_run self state code w))) - clock w"

text \<open>The two synthetic strings, as the source builds them.\<close>

definition error_text :: "pyexc \<Rightarrow> string" where
  "error_text e =
     ''Error: '' @ exc_type e @ '': '' @ safe_str e @ ''\<newline>'' @ format_exc e"

definition timeout_text :: "pynum \<Rightarrow> string" where
  "timeout_text timeout = ''Error: Execution timed out after '' @ str_num timeout @ '' seconds''"



text \<open>The identifiers under which the tools argument is stored in the globals.\<close>

fun tool_ids :: "tools \<Rightarrow> string set" where
  "tool_ids ToolsNone = {}"
| "tool_ids (ToolsDict d) = dom d"
| "tool_ids (ToolsList ts) = {n. \<exists>t \<in> set ts. py_name t = Some n}"
| "tool_ids (ToolsOther v) = {}"

subsection \<open>Concrete inputs\<close>

definition empty_world :: world where
  "empty_world =
     \<lparr>cells = (\<lambda>r. Map.empty), next_ref = 0, exec_context = None,
      current_context = 1, clock = 0\<rparr>"

text \<open>
  A caller that owns two dictionaries: \<^verbatim>\<open>{"tap": 5}\<close> at address 0 and
  \<^verbatim>\<open>{"swipe": 7}\<close> at address 1.
\<close>

definition caller_world :: world where
  "caller_world =
     \<lparr>cells = (\<lambda>r. if r = 0 then [''tap'' \<mapsto> PyInt 5]
                    else if r = 1 then [''swipe'' \<mapsto> PyInt 7] else Map.empty),
      next_ref = 2, exec_context = None, current_context = 1, clock = 0\<rparr>"

definition example_executor :: executor where
  "example_executor = \<lparr>safe_mode = False, globals = 0, locals = 1, use_same_scope = False\<rparr>"

definition ValueError_bad :: pyexc where
  "ValueError_bad = PyExc ''ValueError'' (Inr ''bad'') ExceptionSubclass"

definition SystemExit_0 :: pyexc where
  "SystemExit_0 = PyExc ''SystemExit'' (Inr ''0'') BaseExceptionOnly"

text \<open>
  An exception of a class that derives from \<^verbatim>\<open>Exception\<close> and whose \<^verbatim>\<open>__str__\<close>
  raises a \<^verbatim>\<open>RuntimeError\<close>.
\<close>

definition Unprintable :: pyexc where
  "Unprintable =
     PyExc ''Unprintable'' (Inl (PyExc ''RuntimeError'' (Inr ''no text'') ExceptionSubclass))
       ExceptionSubclass"

text \<open>The default timeout \<^verbatim>\<open>50.0\<close>.\<close>

definition default_timeout :: pynum where
  "default_timeout = PyFloat False 5 1"

definition tap :: pyval where
  "tap = PyFunction ''tap'' 1"

definition swipe :: pyval where
  "swipe = PyFunction ''swipe'' 2"


section \<open>Lemmas about the runner\<close>

lemma thread_clock:
  "clock (snd (execute_in_thread self code ui ctx w)) =
   clock (rs_world (snd (run_code self code ui ctx w)))"
  by (simp add: execute_in_thread_def clear_context_def Let_def
      split: prod.splits outcome.splits sum.splits)

lemma thread_result_cases:
  "fst (execute_in_thread self code ui ctx w) =
     (case fst (run_code self code ui ctx w) of
        NoReturn \<Rightarrow> Never
      | Completed \<Rightarrow>
          Returned (if rs_stderr (snd (run_code self code ui ctx w)) = []
                    then rs_stdout (snd (run_code self code ui ctx w))
                    else rs_stdout (snd (run_code self code ui ctx w)) @ ''\<newline>'' @
                         rs_stderr (snd (run_code self code ui ctx w)))
      | Raised e \<Rightarrow>
          if exc_is_Exception e then
            (case exc_str e of Inl e' \<Rightarrow> Propagated e' | Inr msg \<Rightarrow> Returned (error_text e))
          else Propagated e)"
  by (simp add: execute_in_thread_def error_text_def safe_str_def Let_def
      split: prod.splits outcome.splits sum.splits)

lemma timeout_is_TimeoutError: "exc_is_TimeoutError asyncio_TimeoutError"
  by (simp add: exc_is_TimeoutError_def asyncio_TimeoutError_def)


lemma execute_cases:
  "fst (execute self state code timeout w) =
     (case fst (execute_in_thread self code (ui_state state) (Some (current_context w)) w) of
        Returned out \<Rightarrow>
          if before_deadline (worker_time self state code w) timeout then Inr out
          else Inr (timeout_text timeout)
      | Propagated e \<Rightarrow>
          if before_deadline (worker_time self state code w) timeout \<and> \<not> exc_is_TimeoutError e
          then Inl e
          else Inr (timeout_text timeout)
      | Never \<Rightarrow> Inr (timeout_text timeout))"
  by (simp add: execute_def wait_for_def timeout_text_def Let_def thread_clock[symmetric]
      timeout_is_TimeoutError split: prod.splits thread_result.splits)



lemma execute_world:
  "snd (execute self state code timeout w) =
   snd (execute_in_thread self code (ui_state state) (Some (current_context w)) w)"
  by (simp add: execute_def Let_def split: prod.splits sum.splits)

lemma thread_clears_context:
  "fst (execute_in_thread self code ui (Some c) w) \<noteq> Never \<Longrightarrow>
   exec_context (snd (execute_in_thread self code ui (Some c) w)) = None"
  by (simp add: execute_in_thread_def clear_context_def Let_def
      split: prod.splits outcome.splits if_splits sum.splits)



lemma sublist_timeout: "sublist (str_num t) (timeout_text t)"
  unfolding timeout_text_def by (rule sublist_appendI)











lemma exec_stmt_stdout:
  "exec_stmt g l st (rs\<lparr>rs_stdout := p @ rs_stdout rs\<rparr>) =
     (fst (exec_stmt g l st rs),
      (snd (exec_stmt g l st rs))\<lparr>rs_stdout := p @ rs_stdout (snd (exec_stmt g l st rs))\<rparr>)"
  by (cases st) (auto split: sum.splits pyval.splits)

lemma exec_code_stdout:
  "exec_code g l code (rs\<lparr>rs_stdout := p @ rs_stdout rs\<rparr>) =
     (fst (exec_code g l code rs),
      (snd (exec_code g l code rs))\<lparr>rs_stdout := p @ rs_stdout (snd (exec_code g l code rs))\<rparr>)"
proof (induction code arbitrary: rs)
  case Nil
  show ?case by simp
next
  case (Cons st code)
  obtain oc rs' where st: "exec_stmt g l st rs = (oc, rs')" by (cases "exec_stmt g l st rs")
  show ?case
  proof (cases oc)
    case Completed
    with st Cons.IH[of rs'] show ?thesis by (simp add: exec_stmt_stdout)
  next
    case (Raised e)
    with st show ?thesis by (simp add: exec_stmt_stdout)
  next
    case NoReturn
    with st show ?thesis by (simp add: exec_stmt_stdout)
  qed
qed

lemma run_code_after_write:
  "fst (run_code self (WriteOut (Const (PyStr s)) # code) ui ctx w) =
   fst (run_code self code ui ctx w)"
proof -
  let ?rs = "\<lparr>rs_world =
                (case ctx of
                   None \<Rightarrow> dict_set (globals self) ''ui_state'' ui w
                 | Some c \<Rightarrow> (dict_set (globals self) ''ui_state'' ui w)\<lparr>exec_context := Some c\<rparr>),
              rs_stdout = [], rs_stderr = []\<rparr>"
  have "run_code self (WriteOut (Const (PyStr s)) # code) ui ctx w =
          exec_code (globals self) (locals self) code (?rs\<lparr>rs_stdout := s @ rs_stdout ?rs\<rparr>)"
    by (simp add: run_code_def Let_def)
  then show ?thesis
    by (simp only: exec_code_stdout fst_conv run_code_def Let_def)
qed

section \<open>Lemmas about construction\<close>

lemmas init_eval =
  init_def default_dict_def setup_builtins_def bind_scopes_def alloc_def dict_set_def
  dict_update_def Let_def map_add_def

lemma add_tools_frame:
  "add_tools g ts w = (r, w') \<Longrightarrow>
   next_ref w' = next_ref w \<and> (\<forall>q. q \<noteq> g \<longrightarrow> cells w' q = cells w q) \<and>
   (\<forall>k. cells w g k \<noteq> None \<longrightarrow> cells w' g k \<noteq> None)"
proof (induction ts arbitrary: w)
  case Nil
  then show ?case by simp
next
  case (Cons t ts)
  show ?case
  proof (cases "py_name t")
    case None
    with Cons.prems show ?thesis by simp
  next
    case (Some n)
    with Cons.prems have "add_tools g ts (dict_set g n t w) = (r, w')" by simp
    from Cons.IH[OF this] show ?thesis by (simp add: dict_set_def)
  qed
qed

lemma add_tools_ok:
  "add_tools g ts w = (None, w') \<Longrightarrow> t \<in> set ts \<Longrightarrow>
   \<exists>n. py_name t = Some n \<and> cells w' g n \<noteq> None"
proof (induction ts arbitrary: w)
  case Nil
  then show ?case by simp
next
  case (Cons a ts)
  show ?case
  proof (cases "py_name a")
    case None
    with Cons.prems show ?thesis by simp
  next
    case (Some n)
    with Cons.prems have rest: "add_tools g ts (dict_set g n a w) = (None, w')" by simp
    show ?thesis
    proof (cases "t = a")
      case True
      have "cells (dict_set g n a w) g n \<noteq> None" by (simp add: dict_set_def)
      with add_tools_frame[OF rest] have "cells w' g n \<noteq> None" by blast
      with True Some show ?thesis by simp
    next
      case False
      with Cons.prems have "t \<in> set ts" by simp
      from Cons.IH[OF rest this] show ?thesis .
    qed
  qed
qed



lemma install_tools_frame:
  "install_tools g tls w = (r, w') \<Longrightarrow>
   next_ref w' = next_ref w \<and> (\<forall>q. q \<noteq> g \<longrightarrow> cells w' q = cells w q) \<and>
   (\<forall>k. cells w g k \<noteq> None \<longrightarrow> cells w' g k \<noteq> None)"
proof (cases tls)
  case (ToolsList ts)
  assume "install_tools g tls w = (r, w')"
  with ToolsList have "add_tools g ts w = (r, w')" by simp
  then show ?thesis by (rule add_tools_frame)
qed (auto simp add: dict_update_def map_add_def split: option.splits)

lemma install_tools_ids:
  "install_tools g tls w = (None, w') \<Longrightarrow> k \<in> tool_ids tls \<Longrightarrow> cells w' g k \<noteq> None"
proof (cases tls)
  case (ToolsList ts)
  assume a: "install_tools g tls w = (None, w')" and k: "k \<in> tool_ids tls"
  from a ToolsList have r: "add_tools g ts w = (None, w')" by simp
  from k ToolsList obtain t where "t \<in> set ts" "py_name t = Some k" by auto
  with add_tools_ok[OF r] show ?thesis by fastforce
qed (auto simp add: dict_update_def map_add_def split: option.splits)

lemma install_tools_dict:
  "install_tools g (ToolsDict d) w = (r, w') \<Longrightarrow> d k = Some t \<Longrightarrow> cells w' g k = Some t"
  by (auto simp add: dict_update_def map_add_def)

lemma setup_builtins_frame:
  "next_ref (setup_builtins safe am bm ab bb B g w) = next_ref w \<and>
   (\<forall>q. q \<noteq> g \<longrightarrow> cells (setup_builtins safe am bm ab bb B g w) q = cells w q) \<and>
   cells (setup_builtins safe am bm ab bb B g w) g ''__builtins__'' \<noteq> None"
  by (simp add: setup_builtins_def dict_set_def Let_def)

lemma default_dict_cases:
  "default_dict arg w = (r, w') \<Longrightarrow>
   (arg = Some r \<and> w' = w) \<or>
   (arg = None \<and> r = next_ref w \<and> next_ref w' = Suc (next_ref w) \<and>
    cells w' r = Map.empty \<and> (\<forall>q. q \<noteq> r \<longrightarrow> cells w' q = cells w q))"
  by (auto simp add: default_dict_def alloc_def split: option.splits)

lemma default_dicts_alias:
  assumes "default_dict la w = (l, w1)" and "default_dict ga w1 = (g, w2)"
      and "\<forall>r. la = Some r \<longrightarrow> r < next_ref w" and "\<forall>r. ga = Some r \<longrightarrow> r < next_ref w"
  shows "l = g \<longleftrightarrow> (\<exists>r. la = Some r \<and> ga = Some r)"
proof (cases la)
  case None
  with assms(1) have l: "l = next_ref w" "next_ref w1 = Suc (next_ref w)"
    by (auto simp add: default_dict_def alloc_def)
  show ?thesis
  proof (cases ga)
    case None
    with assms(2) l have "g = Suc l" by (auto simp add: default_dict_def alloc_def)
    with \<open>la = None\<close> show ?thesis by simp
  next
    case (Some r)
    with assms(2) assms(4) l have "g < l" by (auto simp add: default_dict_def)
    with \<open>la = None\<close> show ?thesis by simp
  qed
next
  case (Some r)
  with assms(1) assms(3) have l: "l = r" "w1 = w" "l < next_ref w"
    by (auto simp add: default_dict_def)
  show ?thesis
  proof (cases ga)
    case None
    with assms(2) l have "g = next_ref w" by (auto simp add: default_dict_def alloc_def)
    with l None show ?thesis by simp
  next
    case (Some r')
    with assms(2) have "g = r'" by (auto simp add: default_dict_def)
    with l Some \<open>la = Some r\<close> show ?thesis by auto
  qed
qed

lemma bind_scopes_frame:
  "bind_scopes ss safe g l w = (ex, w') \<Longrightarrow> q < next_ref w \<Longrightarrow> cells w' q = cells w q"
  by (auto simp add: bind_scopes_def alloc_def Let_def split: if_splits)

lemma bind_scopes_load:
  "bind_scopes ss safe g l w = (ex, w') \<Longrightarrow> cells w g k = Some t \<Longrightarrow>
   load_name w' (globals ex) (locals ex) k =
     (case cells w l k of None \<Rightarrow> Some t | Some v \<Rightarrow> Some v)"
  by (auto simp add: bind_scopes_def alloc_def load_name_def map_add_def Let_def
      split: if_splits option.splits)


lemma init_collapse:
  "fst (init la ga tls ss safe am bm ab bb B w) = Inr ex \<Longrightarrow>
   init la ga tls ss safe am bm ab bb B w =
     (Inr ex, snd (init la ga tls ss safe am bm ab bb B w))"
  by (metis prod.collapse)

lemma init_stages:
  assumes "init la ga tls ss safe am bm ab bb B w = (Inr ex, w')"
  obtains l w1 g w2 w4 where
    "default_dict la w = (l, w1)" "default_dict ga w1 = (g, w2)"
    "install_tools g tls (setup_builtins safe am bm ab bb B g w2) = (None, w4)"
    "bind_scopes ss safe g l w4 = (ex, w')"
  using assms
  by (auto simp add: init_def Let_def split: prod.splits option.splits)






section \<open>The claims\<close>




text \<open>
  Claim C2. When the worker is not done before the deadline (it never returns, or it
  takes at least the timeout), \<^verbatim>\<open>execute\<close> raises nothing: it returns the string
  \<^verbatim>\<open>Error: Execution timed out after T seconds\<close>, where \<open>T\<close> is the timeout that was
  passed in as the f-string renders it, an \<^verbatim>\<open>int\<close> in decimal and a \<^verbatim>\<open>float\<close> by
  its \<^verbatim>\<open>repr\<close>.
\<close>

theorem execute_timeout_text:
  "\<not> (fst (worker_run self state code w) \<noteq> NoReturn \<and>
       before_deadline (worker_time self state code w) timeout) \<Longrightarrow>
   fst (execute self state code timeout w) =
     Inr (''Error: Execution timed out after '' @ str_num timeout @ '' seconds'') \<and>
   sublist (str_num timeout)
     (''Error: Execution timed out after '' @ str_num timeout @ '' seconds'')"
proof (rule conjI)
  assume "\<not> (fst (worker_run self state code w) \<noteq> NoReturn \<and>
       before_deadline (worker_time self state code w) timeout)"
  then show "fst (execute self state code timeout w) =
     Inr (''Error: Execution timed out after '' @ str_num timeout @ '' seconds'')"
    by (auto simp add: execute_cases thread_result_cases timeout_text_def
        split: outcome.splits sum.splits)
  show "sublist (str_num timeout)
     (''Error: Execution timed out after '' @ str_num timeout @ '' seconds'')"
    by (rule sublist_appendI)
qed

text \<open>
  The code \<^verbatim>\<open>sys.stdout.write("hello"); time.sleep(60)\<close> with the default timeout
  \<^verbatim>\<open>50.0\<close>, a sleep of one second with the timeouts \<^verbatim>\<open>1.0\<close> and \<^verbatim>\<open>0.5\<close>, and
  code that never returns with the timeout \<^verbatim>\<open>5\<close>.
\<close>

theorem execute_timeout_text_witness:
  "fst (execute example_executor \<lparr>ui_state = PyNone\<rparr>
         [WriteOut (Const (PyStr ''hello'')), Sleep 60] (PyFloat False 5 1) empty_world)
     = Inr ''Error: Execution timed out after 50.0 seconds'' \<and>
   fst (execute example_executor \<lparr>ui_state = PyNone\<rparr> [Sleep 1] (PyFloat False 1 0) empty_world)
     = Inr ''Error: Execution timed out after 1.0 seconds'' \<and>
   fst (execute example_executor \<lparr>ui_state = PyNone\<rparr> [Sleep 1] (PyFloat False 5 (- 1))
          empty_world)
     = Inr ''Error: Execution timed out after 0.5 seconds'' \<and>
   fst (execute example_executor \<lparr>ui_state = PyNone\<rparr> [Hang] (PyIntNum 5) empty_world)
     = Inr ''Error: Execution timed out after 5 seconds''"
  using execute_timeout_text
          [where self = example_executor and state = "\<lparr>ui_state = PyNone\<rparr>"
             and code = "[WriteOut (Const (PyStr ''hello'')), Sleep 60]"
             and w = empty_world and timeout = "PyFloat False 5 1"]
        execute_timeout_text
          [where self = example_executor and state = "\<lparr>ui_state = PyNone\<rparr>"
             and code = "[Sleep 1]" and w = empty_world and timeout = "PyFloat False 1 0"]
        execute_timeout_text
          [where self = example_executor and state = "\<lparr>ui_state = PyNone\<rparr>"
             and code = "[Sleep 1]" and w = empty_world and timeout = "PyFloat False 5 (- 1)"]
        execute_timeout_text
          [where self = example_executor and state = "\<lparr>ui_state = PyNone\<rparr>"
             and code = "[Hang]" and w = empty_world and timeout = "PyIntNum 5"]
  by (simp add: run_code_def dict_set_def example_executor_def empty_world_def float_repr_def
      str_int_def)




text \<open>
  Claim C4, as the code has it. The claim says that a tool identifier is never
  clobbered, also not by the caller's initial locals. The code gives the locals the
  last word: the merged dictionary keeps the locals' entry, and without the shared scope
  a name is looked up in the locals first. So, for a tools mapping and any restriction
  mode and scope mode: a tool identifier resolves to its tool unless the caller's
  initial locals (a dictionary other than the globals) have that key, and then it
  resolves to the locals' value. The builtins mapping and the caller's initial globals
  never win over a tool.
\<close>

theorem init_tool_bindings:
  assumes ok: "fst (init la ga (ToolsDict d) ss safe am bm ab bb B w) = Inr ex"
      and vl: "\<forall>r. la = Some r \<longrightarrow> r < next_ref w"
      and vg: "\<forall>r. ga = Some r \<longrightarrow> r < next_ref w"
      and tool: "d k = Some t"
  shows "load_name (snd (init la ga (ToolsDict d) ss safe am bm ab bb B w))
           (globals ex) (locals ex) k =
           (case la of
              None \<Rightarrow> Some t
            | Some l \<Rightarrow>
                if ga = Some l then Some t
                else (case cells w l k of None \<Rightarrow> Some t | Some v \<Rightarrow> Some v))"
proof -
  let ?w' = "snd (init la ga (ToolsDict d) ss safe am bm ab bb B w)"
  from init_collapse[OF ok] obtain l w1 g w2 w4 where
    s1: "default_dict la w = (l, w1)" and s2: "default_dict ga w1 = (g, w2)" and
    s3: "install_tools g (ToolsDict d) (setup_builtins safe am bm ab bb B g w2) = (None, w4)" and
    s4: "bind_scopes ss safe g l w4 = (ex, ?w')"
    by (rule init_stages)
  from install_tools_dict[OF s3 tool] have gk: "cells w4 g k = Some t" .
  from bind_scopes_load[OF s4 gk]
  have load: "load_name ?w' (globals ex) (locals ex) k =
                (case cells w4 l k of None \<Rightarrow> Some t | Some v \<Rightarrow> Some v)" .
  show ?thesis
  proof (cases "l = g")
    case True
    with gk load have lt: "load_name ?w' (globals ex) (locals ex) k = Some t" by simp
    from default_dicts_alias[OF s1 s2 vl vg] True
    obtain r where "la = Some r" "ga = Some r" by blast
    with lt show ?thesis by simp
  next
    case False
    from install_tools_frame[OF s3] setup_builtins_frame[of safe am bm ab bb B g w2] False
    have l4: "cells w4 l = cells w2 l" by simp
    show ?thesis
    proof (cases la)
      case None
      with default_dict_cases[OF s1] have "cells w1 l = Map.empty" "l = next_ref w" by auto
      with default_dict_cases[OF s2] False have "cells w2 l = Map.empty" by auto
      with l4 load None show ?thesis by simp
    next
      case (Some r)
      with default_dict_cases[OF s1] have lr: "l = r" "w1 = w" by auto
      with default_dict_cases[OF s2] False have "cells w2 l = cells w l" by auto
      moreover from False lr default_dict_cases[OF s2] have "ga \<noteq> Some r" by auto
      ultimately show ?thesis using l4 load Some lr by simp
    qed
  qed
qed

text \<open>
  Safe mode, the shared scope, the caller's locals \<^verbatim>\<open>{"tap": 5}\<close> and globals
  \<^verbatim>\<open>{"swipe": 7}\<close>, a builtins mapping with an entry \<^verbatim>\<open>swipe\<close>, and the tool
  \<^verbatim>\<open>swipe\<close>: the name resolves to the tool.
\<close>

theorem init_tool_bindings_witness:
  "load_name (snd (init (Some 0) (Some 1) (ToolsDict [''swipe'' \<mapsto> swipe]) True True
                     None None None None [''swipe'' \<mapsto> PyInt 0] caller_world))
     2 2 ''swipe'' = Some swipe"
proof -
  have ok: "fst (init (Some 0) (Some 1) (ToolsDict [''swipe'' \<mapsto> swipe]) True True
                   None None None None [''swipe'' \<mapsto> PyInt 0] caller_world)
     = Inr \<lparr>safe_mode = True, globals = 2, locals = 2, use_same_scope = True\<rparr>"
    by (simp add: init_eval caller_world_def)
  show ?thesis
    using init_tool_bindings [OF ok, where k = "''swipe''" and t = swipe]
    by (simp add: caller_world_def)
qed

text \<open>
  The claim fails for the caller's locals \<^verbatim>\<open>{"tap": 5}\<close> and the tool \<^verbatim>\<open>tap\<close>:
  after construction the executor's mapping binds \<^verbatim>\<open>tap\<close> to 5, not to the tool.
\<close>

theorem init_tool_clobbered_by_locals_counterexample:
  "fst (init (Some 0) (Some 1) (ToolsDict [''tap'' \<mapsto> tap]) True False
          None None None None Map.empty caller_world)
     = Inr \<lparr>safe_mode = False, globals = 2, locals = 2, use_same_scope = True\<rparr> \<and>
   cells (snd (init (Some 0) (Some 1) (ToolsDict [''tap'' \<mapsto> tap]) True False
                 None None None None Map.empty caller_world)) 2 ''tap'' = Some (PyInt 5) \<and>
   load_name (snd (init (Some 0) (Some 1) (ToolsDict [''tap'' \<mapsto> tap]) True False
                     None None None None Map.empty caller_world)) 2 2 ''tap'' \<noteq> Some tap"
  by (simp add: init_eval caller_world_def load_name_def tap_def)

text \<open>
  Claim C5. When the executed code completes without a fault, the runner returns the
  captured stdout if the captured stderr is empty, and the captured stdout, one newline
  and the captured stderr otherwise; \<^verbatim>\<open>execute\<close> returns the same string when the
  worker is done before the deadline. Code that writes \<^verbatim>\<open>out\<close> to stdout and
  \<^verbatim>\<open>err\<close> to stderr yields \<^verbatim>\<open>out\<close>, a newline, \<^verbatim>\<open>err\<close>.
\<close>

theorem runner_output_concatenation:
  "(fst (run_code self code ui ctx w) = Completed \<longrightarrow>
      fst (execute_in_thread self code ui ctx w) =
        Returned (if rs_stderr (snd (run_code self code ui ctx w)) = []
                  then rs_stdout (snd (run_code self code ui ctx w))
                  else rs_stdout (snd (run_code self code ui ctx w)) @ ''\<newline>'' @
                       rs_stderr (snd (run_code self code ui ctx w)))) \<and>
   (fst (worker_run self state code w) = Completed \<and>
    before_deadline (worker_time self state code w) timeout \<longrightarrow>
      fst (execute self state code timeout w) =
        Inr (if rs_stderr (snd (worker_run self state code w)) = []
             then rs_stdout (snd (worker_run self state code w))
             else rs_stdout (snd (worker_run self state code w)) @ ''\<newline>'' @
                  rs_stderr (snd (worker_run self state code w)))) \<and>
   fst (execute_in_thread self
          [WriteOut (Const (PyStr ''out'')), WriteErr (Const (PyStr ''err''))] ui ctx w)
     = Returned ''out\<newline>err''"
proof (intro conjI impI)
  assume "fst (run_code self code ui ctx w) = Completed"
  then show "fst (execute_in_thread self code ui ctx w) =
        Returned (if rs_stderr (snd (run_code self code ui ctx w)) = []
                  then rs_stdout (snd (run_code self code ui ctx w))
                  else rs_stdout (snd (run_code self code ui ctx w)) @ ''\<newline>'' @
                       rs_stderr (snd (run_code self code ui ctx w)))"
    by (simp add: thread_result_cases)
next
  assume "fst (worker_run self state code w) = Completed \<and>
    before_deadline (worker_time self state code w) timeout"
  then show "fst (execute self state code timeout w) =
        Inr (if rs_stderr (snd (worker_run self state code w)) = []
             then rs_stdout (snd (worker_run self state code w))
             else rs_stdout (snd (worker_run self state code w)) @ ''\<newline>'' @
                  rs_stderr (snd (worker_run self state code w)))"
    by (simp add: execute_cases thread_result_cases)
next
  show "fst (execute_in_thread self
          [WriteOut (Const (PyStr ''out'')), WriteErr (Const (PyStr ''err''))] ui ctx w)
     = Returned ''out\<newline>err''"
    by (simp add: thread_result_cases run_code_def Let_def)
qed

text \<open>Code that writes to stdout only, and through \<^verbatim>\<open>execute\<close> to both streams.\<close>

theorem runner_output_concatenation_witness:
  "fst (execute_in_thread example_executor [WriteOut (Const (PyStr ''only out''))]
          PyNone (Some 3) empty_world) = Returned ''only out'' \<and>
   fst (execute example_executor \<lparr>ui_state = PyNone\<rparr>
          [WriteErr (Const (PyStr ''warn'')), WriteOut (Const (PyStr ''a'')),
           WriteOut (Const (PyStr ''b''))] default_timeout empty_world) = Inr ''ab\<newline>warn''"
  using runner_output_concatenation
    [where self = example_executor and ui = PyNone and ctx = "Some 3"
       and code = "[WriteOut (Const (PyStr ''only out''))]" and w = empty_world]
    runner_output_concatenation
    [where self = example_executor and state = "\<lparr>ui_state = PyNone\<rparr>"
       and timeout = default_timeout
       and code = "[WriteErr (Const (PyStr ''warn'')), WriteOut (Const (PyStr ''a'')),
                    WriteOut (Const (PyStr ''b''))]" and w = empty_world]
  by (simp add: run_code_def dict_set_def example_executor_def empty_world_def
      default_timeout_def)

text \<open>
  Claim C6. The decision function of the capability policy, which serves the builtins
  and the importable module names alike: with no allow-set every name is permitted
  except the blocked ones; with the empty allow-set no name is permitted; with a
  non-empty allow-set exactly the listed names that are not blocked are permitted; and
  a blocked name is denied whatever the allow-set says. The restricted builtins mapping
  keeps exactly the permitted entries, and the import guard permits exactly the
  permitted module names.
\<close>

theorem capability_policy_decision:
  "(allowed = None \<longrightarrow>
      resolve allowed blocked n = (\<forall>b. blocked = Some b \<longrightarrow> n \<notin> b)) \<and>
   (allowed = Some {} \<longrightarrow> \<not> resolve allowed blocked n) \<and>
   (\<forall>a. allowed = Some a \<and> a \<noteq> {} \<longrightarrow>
        resolve allowed blocked n = (n \<in> a \<and> (\<forall>b. blocked = Some b \<longrightarrow> n \<notin> b))) \<and>
   (\<forall>b. blocked = Some b \<and> n \<in> b \<longrightarrow> \<not> resolve allowed blocked n) \<and>
   create_safe_builtins allowed blocked full n =
     (if resolve allowed blocked n then full n else None) \<and>
   guard_permits (create_safe_import allowed blocked) n = resolve allowed blocked n"
  by (auto simp add: resolve_def create_safe_builtins_def create_safe_import_def
      split: option.splits)

text \<open>
  The allow-set \<^verbatim>\<open>{"math", "os"}\<close> with \<^verbatim>\<open>os\<close> blocked, the empty allow-set, and
  no allow-set.
\<close>

theorem capability_policy_decision_witness:
  "resolve (Some {''math'', ''os''}) (Some {''os''}) ''math'' \<and>
   \<not> resolve (Some {''math'', ''os''}) (Some {''os''}) ''os'' \<and>
   \<not> resolve (Some {''math'', ''os''}) (Some {''os''}) ''sys'' \<and>
   \<not> resolve (Some {}) None ''math'' \<and>
   resolve None (Some {''os''}) ''math''"
  using capability_policy_decision
          [where allowed = "Some {''math'', ''os''}" and blocked = "Some {''os''}" and n = "''math''"]
        capability_policy_decision
          [where allowed = "Some {''math'', ''os''}" and blocked = "Some {''os''}" and n = "''os''"]
        capability_policy_decision
          [where allowed = "Some {''math'', ''os''}" and blocked = "Some {''os''}" and n = "''sys''"]
        capability_policy_decision
          [where allowed = "Some {}" and blocked = "None" and n = "''math''"]
        capability_policy_decision
          [where allowed = "None" and blocked = "Some {''os''}" and n = "''math''"]
  by simp




text \<open>
  Claim C8. Whenever the runner is called with a context and the call completes, by
  returning a string or by letting an exception through, the slot
  \<^verbatim>\<open>_exec_context\<close> holds \<^verbatim>\<open>None\<close> afterwards; so it does after every
  \<^verbatim>\<open>execute\<close> whose worker completes, since \<^verbatim>\<open>execute\<close> always passes a context.
\<close>

theorem runner_clears_context:
  "(fst (execute_in_thread self code ui (Some c) w) \<noteq> Never \<longrightarrow>
      exec_context (snd (execute_in_thread self code ui (Some c) w)) = None) \<and>
   (fst (worker_run self state code w) \<noteq> NoReturn \<longrightarrow>
      exec_context (snd (execute self state code timeout w)) = None)"
proof (intro conjI impI)
  assume "fst (execute_in_thread self code ui (Some c) w) \<noteq> Never"
  then show "exec_context (snd (execute_in_thread self code ui (Some c) w)) = None"
    by (rule thread_clears_context)
next
  assume "fst (worker_run self state code w) \<noteq> NoReturn"
  then have "fst (execute_in_thread self code (ui_state state) (Some (current_context w)) w)
               \<noteq> Never"
    by (simp add: thread_result_cases split: outcome.splits sum.splits)
  then show "exec_context (snd (execute self state code timeout w)) = None"
    by (simp add: execute_world thread_clears_context)
qed

text \<open>
  A slot that holds 9 before the call, and code that writes and then raises
  \<^verbatim>\<open>SystemExit\<close>, which the runner does not catch.
\<close>

theorem runner_clears_context_witness:
  "exec_context (snd (execute_in_thread example_executor
       [WriteOut (Const (PyStr ''x'')), Raise SystemExit_0] PyNone (Some 3)
       (empty_world\<lparr>exec_context := Some 9\<rparr>))) = None \<and>
   exec_context (snd (execute example_executor \<lparr>ui_state = PyNone\<rparr>
       [Raise ValueError_bad] default_timeout (empty_world\<lparr>exec_context := Some 9\<rparr>))) = None"
  using runner_clears_context
          [where self = example_executor and ui = PyNone and c = 3
             and code = "[WriteOut (Const (PyStr ''x'')), Raise SystemExit_0]"
             and w = "empty_world\<lparr>exec_context := Some 9\<rparr>"]
        runner_clears_context
          [where self = example_executor and state = "\<lparr>ui_state = PyNone\<rparr>"
             and timeout = default_timeout and code = "[Raise ValueError_bad]"
             and w = "empty_world\<lparr>exec_context := Some 9\<rparr>"]
  by (simp add: execute_in_thread_def run_code_def SystemExit_0_def exc_is_Exception_def)

text \<open>
  Claim C9. When the executed code raises an exception that derives from
  \<^verbatim>\<open>Exception\<close> and the runner returns a string (\<^verbatim>\<open>str(e)\<close> returns the message),
  that string is the formatted error text alone (type name, message, traceback). What
  the code wrote to stdout before the fault is no part of the result: the same code
  after one more \<^verbatim>\<open>sys.stdout.write(s)\<close> returns the same string, whatever \<open>s\<close> is.
\<close>

theorem runner_error_discards_stdout:
  "fst (run_code self code ui ctx w) = Raised e \<Longrightarrow> exc_is_Exception e \<Longrightarrow>
   exc_str e = Inr msg \<Longrightarrow>
   fst (execute_in_thread self code ui ctx w) = Returned (error_text e) \<and>
   (\<forall>s. fst (execute_in_thread self (WriteOut (Const (PyStr s)) # code) ui ctx w) =
          Returned (error_text e)) \<and>
   error_text e = ''Error: '' @ exc_type e @ '': '' @ msg @ ''\<newline>'' @ format_exc e"
  by (simp add: thread_result_cases run_code_after_write error_text_def safe_str_def)

text \<open>The code \<^verbatim>\<open>sys.stdout.write("hello"); raise ValueError("bad")\<close>.\<close>

theorem runner_error_discards_stdout_witness:
  "fst (execute_in_thread example_executor
       [WriteOut (Const (PyStr ''hello'')), Raise ValueError_bad] PyNone None empty_world)
     = Returned (''Error: ValueError: bad\<newline>'' @
                 ''Traceback (most recent call last):\<newline>'' @
                 ''  File <string>, in <module>\<newline>'' @
                 ''ValueError: bad\<newline>'')"
proof -
  have r: "fst (run_code example_executor [Raise ValueError_bad] PyNone None empty_world)
     = Raised ValueError_bad"
    by (simp add: run_code_def)
  have x: "exc_is_Exception ValueError_bad"
    by (simp add: ValueError_bad_def exc_is_Exception_def)
  have m: "exc_str ValueError_bad = Inr ''bad''"
    by (simp add: ValueError_bad_def)
  show ?thesis
    using runner_error_discards_stdout [OF r x m]
    by (simp add: ValueError_bad_def format_exc_def safe_str_def)
qed

text \<open>
  Claim C10. When the caller passes a dictionary as \<^verbatim>\<open>globals\<close> and the constructor
  returns, that very dictionary holds an entry \<^verbatim>\<open>__builtins__\<close> and an entry for
  every tool identifier, in safe and in unsafe mode and with or without the shared
  scope.
\<close>

theorem init_mutates_caller_globals:
  assumes "fst (init la (Some g) tls ss safe am bm ab bb B w) = Inr ex" and "g < next_ref w"
  shows "cells (snd (init la (Some g) tls ss safe am bm ab bb B w)) g ''__builtins__'' \<noteq> None \<and>
         (\<forall>k \<in> tool_ids tls.
            cells (snd (init la (Some g) tls ss safe am bm ab bb B w)) g k \<noteq> None)"
proof -
  let ?w' = "snd (init la (Some g) tls ss safe am bm ab bb B w)"
  from init_collapse[OF assms(1)] obtain l w1 g' w2 w4 where
    s1: "default_dict la w = (l, w1)" and s2: "default_dict (Some g) w1 = (g', w2)" and
    s3: "install_tools g' tls (setup_builtins safe am bm ab bb B g' w2) = (None, w4)" and
    s4: "bind_scopes ss safe g' l w4 = (ex, ?w')"
    by (rule init_stages)
  from s2 have g': "g' = g" "w2 = w1" by (auto simp add: default_dict_def)
  from default_dict_cases[OF s1] assms(2) have n1: "g < next_ref w1" by auto
  let ?w3 = "setup_builtins safe am bm ab bb B g w1"
  have n3: "next_ref ?w3 = next_ref w1" and b3: "cells ?w3 g ''__builtins__'' \<noteq> None"
    using setup_builtins_frame by auto
  from s3 g' have s3': "install_tools g tls ?w3 = (None, w4)" by simp
  from install_tools_frame[OF s3'] n3 n1 b3
  have n4: "g < next_ref w4" and b4: "cells w4 g ''__builtins__'' \<noteq> None" by auto
  from s4 g' have "bind_scopes ss safe g l w4 = (ex, ?w')" by simp
  from this n4 have same: "cells ?w' g = cells w4 g" by (rule bind_scopes_frame)
  show ?thesis
  proof (intro conjI ballI)
    show "cells ?w' g ''__builtins__'' \<noteq> None" using same b4 by simp
  next
    fix k assume "k \<in> tool_ids tls"
    with install_tools_ids[OF s3'] same show "cells ?w' g k \<noteq> None" by simp
  qed
qed

text \<open>
  The caller's globals \<^verbatim>\<open>{"swipe": 7}\<close> at address 1, safe mode, the shared scope and
  the tool list \<^verbatim>\<open>[tap]\<close>.
\<close>

theorem init_mutates_caller_globals_witness:
  "cells (snd (init None (Some 1) (ToolsList [tap]) True True None None None None Map.empty
                 caller_world)) 1 ''__builtins__'' \<noteq> None \<and>
   cells (snd (init None (Some 1) (ToolsList [tap]) True True None None None None Map.empty
                 caller_world)) 1 ''tap'' \<noteq> None"
proof -
  have ok: "fst (init None (Some 1) (ToolsList [tap]) True True None None None None Map.empty
                   caller_world)
     = Inr \<lparr>safe_mode = True, globals = 3, locals = 3, use_same_scope = True\<rparr>"
    by (simp add: init_eval caller_world_def tap_def)
  have v: "(1::nat) < next_ref caller_world" by (simp add: caller_world_def)
  show ?thesis
    using init_mutates_caller_globals [OF ok v]
    by (simp add: tap_def)
qed

end
